theory Spec2Isabelle
  imports Main
begin

section \<open>Python values, dictionaries and exceptions\<close>

text \<open>
  The flat-file table of \<^verbatim>\<open>CSVDataTable.py\<close> keeps its rows as Python dictionaries.
  A value is \<^verbatim>\<open>None\<close>, a string or an integer; the only other value a table can hold
  is the list of surplus fields that \<^verbatim>\<open>csv.DictReader\<close> stores for a data row longer
  than the header. Floating-point numbers are not modelled.
\<close>

datatype pyval = PNone | PStr string | PInt int | PList "string list"

text \<open>
  A dictionary keeps its items in insertion order and holds each key once: an
  association list. \<^verbatim>\<open>d[k] = v\<close> replaces the value of a key that is present, at its
  place, and appends a new key at the end.
\<close>

type_synonym pydict = "(pyval \<times> pyval) list"

text \<open>
  The exceptions the source can raise, as values: those of its own statements, the
  errors with which the operating system can refuse to open a file, and \<open>CsvError\<close>,
  the \<^verbatim>\<open>_csv.Error\<close> of the csv reader. \<open>DuplicateKeyError\<close>, \<open>ArityError\<close> and
  \<open>EmptyTableError\<close> are names of the specification's error taxonomy: no statement of
  the source raises them.
\<close>

datatype error = KeyError pyval | IndexError | ValueError | TypeError
  | FileNotFoundError | PermissionError | IsADirectoryError | NotADirectoryError | CsvError
  | DuplicateKeyError | ArityError | EmptyTableError

definition dict_keys :: "pydict \<Rightarrow> pyval list" where
  "dict_keys d = map fst d"

fun dict_setitem :: "pydict \<Rightarrow> pyval \<Rightarrow> pyval \<Rightarrow> pydict" where
  "dict_setitem [] k v = [(k, v)]"
| "dict_setitem ((k', v') # d) k v =
     (if k' = k then (k', v) # d else (k', v') # dict_setitem d k v)"

text \<open>\<^verbatim>\<open>d.get(k, default)\<close> and \<^verbatim>\<open>d[k]\<close>, which raises \<^verbatim>\<open>KeyError(k)\<close>.\<close>

definition dict_get :: "pydict \<Rightarrow> pyval \<Rightarrow> pyval \<Rightarrow> pyval" where
  "dict_get d k dflt = (case map_of d k of None \<Rightarrow> dflt | Some v \<Rightarrow> v)"

definition dict_getitem :: "pydict \<Rightarrow> pyval \<Rightarrow> error + pyval" where
  "dict_getitem d k = (case map_of d k of None \<Rightarrow> Inl (KeyError k) | Some v \<Rightarrow> Inr v)"

text \<open>\<^verbatim>\<open>dict(pairs)\<close>: the pairs are stored one after the other.\<close>

definition dict_of_pairs :: "(pyval \<times> pyval) list \<Rightarrow> pydict" where
  "dict_of_pairs ps = foldl (\<lambda>d (k, v). dict_setitem d k v) [] ps"

text \<open>
  Python's \<^verbatim>\<open>==\<close> on dictionaries ignores the order of the items: the two have the
  same number of items and every item of the first is an item of the second.
\<close>

definition dict_eq :: "pydict \<Rightarrow> pydict \<Rightarrow> bool" where
  "dict_eq a b = (length a = length b \<and> list_all (\<lambda>(k, v). map_of b k = Some v) a)"

section \<open>The table\<close>

text \<open>
  \<^verbatim>\<open>connect_info\<close> is read with \<^verbatim>\<open>.get("directory")\<close> and \<^verbatim>\<open>.get("file_name")\<close>,
  which give \<^verbatim>\<open>None\<close> for an entry that is missing.
\<close>

record connection =
  directory :: "string option"
  file_name :: "string option"

text \<open>
  The attributes of a \<^verbatim>\<open>CSVDataTable\<close>: the configuration of \<^verbatim>\<open>__init__\<close>, the row
  list \<^verbatim>\<open>_rows\<close> in load order, and \<^verbatim>\<open>columns\<close>, which only \<^verbatim>\<open>save\<close> sets.
\<close>

record table =
  table_name :: string
  connect_info :: connection
  key_columns :: "pyval list"
  debug :: bool
  rows :: "pydict list"
  columns :: "pyval list option"

section \<open>Projection and template matching\<close>

text \<open>
  \<^verbatim>\<open>_project(row, field_list)\<close>: the row itself when there is no field list, else a new
  dictionary filled field by field; \<^verbatim>\<open>row[f]\<close> raises \<^verbatim>\<open>KeyError\<close> at the first field
  the row does not have.
\<close>

fun project_fields :: "pydict \<Rightarrow> pydict \<Rightarrow> pyval list \<Rightarrow> error + pydict" where
  "project_fields row result [] = Inr result"
| "project_fields row result (f # fs) =
     (case dict_getitem row f of
        Inl e \<Rightarrow> Inl e
      | Inr v \<Rightarrow> project_fields row (dict_setitem result f v) fs)"

definition project :: "pydict \<Rightarrow> pyval list option \<Rightarrow> error + pydict" where
  "project row field_list =
     (case field_list of None \<Rightarrow> Inr row | Some fl \<Rightarrow> project_fields row [] fl)"

text \<open>
  \<^verbatim>\<open>matches_template(row, template)\<close>: the loop over \<^verbatim>\<open>template.items()\<close> stops with
  \<^verbatim>\<open>False\<close> at the first item whose value differs from \<^verbatim>\<open>row.get(k, None)\<close>.
\<close>

fun matches_items :: "pydict \<Rightarrow> (pyval \<times> pyval) list \<Rightarrow> bool" where
  "matches_items row [] = True"
| "matches_items row ((k, v) # kvs) =
     (if v \<noteq> dict_get row k PNone then False else matches_items row kvs)"

definition matches_template :: "pydict \<Rightarrow> pydict option \<Rightarrow> bool" where
  "matches_template row template =
     (case template of None \<Rightarrow> True | Some tm \<Rightarrow> matches_items row tm)"

section \<open>Queries\<close>

text \<open>
  \<^verbatim>\<open>find_by_template\<close> scans \<^verbatim>\<open>reversed(self._rows)\<close> and appends the projection of
  every matching row to \<^verbatim>\<open>result\<close>; a \<^verbatim>\<open>KeyError\<close> of the projection ends the call.
  The parameters \<^verbatim>\<open>limit\<close>, \<^verbatim>\<open>offset\<close> and \<^verbatim>\<open>order_by\<close> are never read and are left out.
\<close>

fun find_rows ::
  "pydict option \<Rightarrow> pyval list option \<Rightarrow> pydict list \<Rightarrow> pydict list \<Rightarrow> error + pydict list"
where
  "find_rows template field_list result [] = Inr result"
| "find_rows template field_list result (r # rs) =
     (if matches_template r template then
        (case project r field_list of
           Inl e \<Rightarrow> Inl e
         | Inr new_r \<Rightarrow> find_rows template field_list (result @ [new_r]) rs)
      else find_rows template field_list result rs)"

definition find_by_template ::
  "table \<Rightarrow> pydict option \<Rightarrow> pyval list option \<Rightarrow> error + pydict list"
where
  "find_by_template t template field_list =
     find_rows template field_list [] (rev (rows t))"

text \<open>
  \<^verbatim>\<open>find_by_primary_key\<close> builds \<^verbatim>\<open>dict(zip(self._key_columns, key_fields))\<close>, where
  \<^verbatim>\<open>zip\<close> stops at the shorter list, and then returns \<^verbatim>\<open>None\<close>: the body ends with a
  bare \<^verbatim>\<open>return\<close>.
\<close>

definition find_by_primary_key ::
  "table \<Rightarrow> pyval list \<Rightarrow> pyval list option \<Rightarrow> error + pydict option"
where
  "find_by_primary_key t key_fields field_list =
     (let dictionary = dict_of_pairs (zip (key_columns t) key_fields) in Inr None)"

section \<open>Updates\<close>

text \<open>
  \<^verbatim>\<open>delete_by_template\<close> sets \<^verbatim>\<open>counter = 0\<close> and returns it; \<^verbatim>\<open>insert\<close> has a
  docstring and a comment for a body and returns \<^verbatim>\<open>None\<close>. Neither touches the rows.
  An operation that can change the table returns its result with the table after it.
\<close>

definition delete_by_template :: "table \<Rightarrow> pydict option \<Rightarrow> (error + int) \<times> table" where
  "delete_by_template t template = (let counter = 0 in (Inr counter, t))"

definition insert_record :: "table \<Rightarrow> pydict \<Rightarrow> (error + unit) \<times> table" where
  "insert_record t new_record = (Inr (), t)"

section \<open>The backing file\<close>

text \<open>
  A file is kept as the rows of fields that \<^verbatim>\<open>csv.writer\<close> was given and that
  \<^verbatim>\<open>csv.reader\<close> gives back: the quoting of the csv text is the library's and is not
  modelled. A blank line is the row with no field. The system is a POSIX one, where
  writing in text mode changes no character, and the file's encoding (UTF-8) holds
  every character. The reader is that of Python 3.11 and later, which accepts every
  character.
\<close>

type_synonym csv_file = "string list list"

text \<open>
  Which file a path names is the operating system's answer, not a property of the
  string: \<^verbatim>\<open>data//people.csv\<close> and \<^verbatim>\<open>data/people.csv\<close> are one file, and what a relative
  path names depends on the working directory. So the file system is given by
  \<open>opens\<close>, which tells for a mode and a path either the error that \<^verbatim>\<open>open\<close> raises
  before it touches any file (a directory on the way is missing, the permission is
  denied, the path is a directory) or the file the path names, and by \<open>contents\<close>,
  the content of every file that exists. Opening for writing a file that \<open>opens\<close>
  grants creates it or empties it; opening for reading a file that does not exist
  raises \<^verbatim>\<open>FileNotFoundError\<close>.
\<close>

datatype mode = Reading | Writing

type_synonym file_id = nat

record filesystem =
  opens :: "mode \<Rightarrow> string \<Rightarrow> error + file_id"
  contents :: "file_id \<Rightarrow> csv_file option"

text \<open>\<^verbatim>\<open>str\<close> of an integer: decimal digits, with a minus sign below zero.\<close>

fun str_nat :: "nat \<Rightarrow> string" where
  "str_nat n =
     (if n < 10 then [''0123456789'' ! n]
      else str_nat (n div 10) @ [''0123456789'' ! (n mod 10)])"

declare str_nat.simps [simp del]

definition str_int :: "int \<Rightarrow> string" where
  "str_int i = (if i < 0 then CHR ''-'' # str_nat (nat (- i)) else str_nat (nat i))"

text \<open>
  The text the csv writer puts in a field: nothing for \<^verbatim>\<open>None\<close>, a string as it
  is, \<^verbatim>\<open>str\<close> of any other value. \<^verbatim>\<open>str\<close> of a list of strings depends on Python's
  escaping rules for \<^verbatim>\<open>repr\<close>; it is the parameter \<open>str_list\<close>.
\<close>

definition csv_str :: "(string list \<Rightarrow> string) \<Rightarrow> pyval \<Rightarrow> string" where
  "csv_str str_list v =
     (case v of PNone \<Rightarrow> [] | PStr s \<Rightarrow> s | PInt i \<Rightarrow> str_int i | PList xs \<Rightarrow> str_list xs)"

text \<open>
  \<^verbatim>\<open>csv.DictWriter(csvfile, fieldnames)\<close> with its defaults: \<^verbatim>\<open>writerow\<close> raises
  \<^verbatim>\<open>ValueError\<close> for a dictionary with a key outside \<^verbatim>\<open>fieldnames\<close>, and writes the
  empty string for a field name the dictionary does not have. \<^verbatim>\<open>writeheader\<close> writes
  the row \<^verbatim>\<open>dict(zip(fieldnames, fieldnames))\<close>.
\<close>

definition dict_to_list :: "pyval list \<Rightarrow> pydict \<Rightarrow> error + pyval list" where
  "dict_to_list fieldnames rowdict =
     (if filter (\<lambda>k. k \<notin> set fieldnames) (dict_keys rowdict) \<noteq> [] then Inl ValueError
      else Inr (map (\<lambda>key. dict_get rowdict key (PStr [])) fieldnames))"

definition writerow ::
  "(string list \<Rightarrow> string) \<Rightarrow> pyval list \<Rightarrow> csv_file \<Rightarrow> pydict
     \<Rightarrow> (error + unit) \<times> csv_file"
where
  "writerow str_list fieldnames content rowdict =
     (case dict_to_list fieldnames rowdict of
        Inl e \<Rightarrow> (Inl e, content)
      | Inr vals \<Rightarrow> (Inr (), content @ [map (csv_str str_list) vals]))"

definition writeheader ::
  "(string list \<Rightarrow> string) \<Rightarrow> pyval list \<Rightarrow> csv_file \<Rightarrow> (error + unit) \<times> csv_file"
where
  "writeheader str_list fieldnames content =
     writerow str_list fieldnames content (dict_of_pairs (zip fieldnames fieldnames))"

text \<open>The loop \<^verbatim>\<open>for r in self._rows: csvw.writerow(r)\<close>; it ends at the first error.\<close>

fun write_rows ::
  "(string list \<Rightarrow> string) \<Rightarrow> pyval list \<Rightarrow> csv_file \<Rightarrow> pydict list
     \<Rightarrow> (error + unit) \<times> csv_file"
where
  "write_rows str_list fieldnames content [] = (Inr (), content)"
| "write_rows str_list fieldnames content (r # rs) =
     (case writerow str_list fieldnames content r of
        (Inl e, content') \<Rightarrow> (Inl e, content')
      | (Inr u, content') \<Rightarrow> write_rows str_list fieldnames content' rs)"

text \<open>
  \<^verbatim>\<open>save\<close>: the file name is \<^verbatim>\<open>directory + "/" + file_name\<close> (\<^verbatim>\<open>TypeError\<close> when an
  entry is \<^verbatim>\<open>None\<close>); \<^verbatim>\<open>open(fn, "w")\<close> raises the operating system's error or empties
  the file; only then \<^verbatim>\<open>self._rows[0]\<close> is read (\<^verbatim>\<open>IndexError\<close> on an empty list), its
  keys become \<^verbatim>\<open>self.columns\<close> and the header, and every row is written. What was
  written before an error stays in the file, which the \<^verbatim>\<open>with\<close> block closes.
\<close>

definition save ::
  "(string list \<Rightarrow> string) \<Rightarrow> table \<Rightarrow> filesystem \<Rightarrow> (error + unit) \<times> table \<times> filesystem"
where
  "save str_list t fs =
     (case directory (connect_info t) of
        None \<Rightarrow> (Inl TypeError, t, fs)
      | Some d \<Rightarrow>
     (case file_name (connect_info t) of
        None \<Rightarrow> (Inl TypeError, t, fs)
      | Some f \<Rightarrow>
     (let fn = d @ ''/'' @ f in
      case opens fs Writing fn of
        Inl e \<Rightarrow> (Inl e, t, fs)
      | Inr csvfile \<Rightarrow>
     (case rows t of
        [] \<Rightarrow> (Inl IndexError, t, fs\<lparr>contents := (contents fs)(csvfile \<mapsto> [])\<rparr>)
      | r0 # rest \<Rightarrow>
          (let cols = dict_keys r0; t1 = t\<lparr>columns := Some cols\<rparr> in
           case writeheader str_list cols [] of
             (Inl e, content) \<Rightarrow>
               (Inl e, t1, fs\<lparr>contents := (contents fs)(csvfile \<mapsto> content)\<rparr>)
           | (Inr u, content) \<Rightarrow>
               (case write_rows str_list cols content (rows t) of
                  (res, content') \<Rightarrow>
                    (res, t1, fs\<lparr>contents := (contents fs)(csvfile \<mapsto> content')\<rparr>)))))))"

text \<open>
  \<^verbatim>\<open>os.path.join\<close> of two parts, as \<^verbatim>\<open>posixpath\<close> defines it: an absolute second part
  replaces the first, and the separator is added only after a non-empty first part
  that does not end with one.
\<close>

definition os_path_join :: "string \<Rightarrow> string \<Rightarrow> string" where
  "os_path_join a b =
     (if take 1 b = ''/'' then b
      else if a = [] \<or> take 1 (rev a) = ''/'' then a @ b
      else a @ ''/'' @ b)"

text \<open>
  \<^verbatim>\<open>open(full_name, "r")\<close> reads in text mode with universal newlines: a carriage
  return, with the line feed after it if there is one, reaches the reader as one line
  feed. Between fields the writer's line ends are all there is to translate; inside a
  field the translation changes the field.
\<close>

fun universal_newlines :: "string \<Rightarrow> string" where
  "universal_newlines [] = []"
| "universal_newlines [c] = [if c = CHR 0x0D then CHR 0x0A else c]"
| "universal_newlines (c # c' # cs) =
     (if c = CHR 0x0D \<and> c' = CHR 0x0A then CHR 0x0A # universal_newlines cs
      else if c = CHR 0x0D then CHR 0x0A # universal_newlines (c' # cs)
      else c # universal_newlines (c' # cs))"

text \<open>
  \<^verbatim>\<open>csv.DictReader\<close> with its defaults: the first row of the file gives the field
  names; a later row with no field is skipped; every other row becomes
  \<^verbatim>\<open>dict(zip(fieldnames, row))\<close>, with the surplus fields of a longer row as a list
  under the key \<^verbatim>\<open>None\<close> and the value \<^verbatim>\<open>None\<close> for the field names a shorter row
  does not reach. The reader raises \<^verbatim>\<open>_csv.Error\<close> at a row with a field of more than
  \<^verbatim>\<open>csv.field_size_limit()\<close> characters, 131072 unless it is changed, which the source
  does not do. The rows read before the error have been given out.
\<close>

definition field_size_limit :: nat where
  "field_size_limit = 131072"

definition within_limit :: "string list \<Rightarrow> bool" where
  "within_limit row = list_all (\<lambda>field. length field \<le> field_size_limit) row"

definition reader_row :: "string list \<Rightarrow> string list \<Rightarrow> pydict" where
  "reader_row fieldnames row =
     (let d = dict_of_pairs (zip (map PStr fieldnames) (map PStr row));
          lf = length fieldnames;
          lr = length row
      in if lf < lr then dict_setitem d PNone (PList (drop lf row))
         else if lf > lr then foldl (\<lambda>d key. dict_setitem d (PStr key) PNone) d (drop lr fieldnames)
         else d)"

fun reader_rows :: "string list \<Rightarrow> csv_file \<Rightarrow> pydict list \<times> error option" where
  "reader_rows fieldnames [] = ([], None)"
| "reader_rows fieldnames (row # data) =
     (if within_limit row then
        (if row = [] then reader_rows fieldnames data
         else (case reader_rows fieldnames data of
                 (rs, e) \<Rightarrow> (reader_row fieldnames row # rs, e)))
      else ([], Some CsvError))"

definition DictReader :: "csv_file \<Rightarrow> pydict list \<times> error option" where
  "DictReader content =
     (case content of
        [] \<Rightarrow> ([], None)
      | fieldnames # data \<Rightarrow>
          (if within_limit fieldnames then reader_rows fieldnames data
           else ([], Some CsvError)))"

definition add_row :: "table \<Rightarrow> pydict \<Rightarrow> table" where
  "add_row t r = t\<lparr>rows := rows t @ [r]\<rparr>"

text \<open>
  \<^verbatim>\<open>_load\<close>: the file name is \<^verbatim>\<open>os.path.join(directory, file_name)\<close> (\<^verbatim>\<open>TypeError\<close> when
  an entry is \<^verbatim>\<open>None\<close>); \<^verbatim>\<open>open(full_name, "r")\<close> raises the operating system's error,
  or \<^verbatim>\<open>FileNotFoundError\<close> for a file that does not exist; every row the reader gives
  out is added to the table, and an error of the reader ends the call with the rows
  added so far.
\<close>

definition load :: "table \<Rightarrow> filesystem \<Rightarrow> (error + unit) \<times> table" where
  "load t fs =
     (case directory (connect_info t) of
        None \<Rightarrow> (Inl TypeError, t)
      | Some dir_info \<Rightarrow>
     (case file_name (connect_info t) of
        None \<Rightarrow> (Inl TypeError, t)
      | Some file_n \<Rightarrow>
     (case opens fs Reading (os_path_join dir_info file_n) of
        Inl e \<Rightarrow> (Inl e, t)
      | Inr txt_file \<Rightarrow>
     (case contents fs txt_file of
        None \<Rightarrow> (Inl FileNotFoundError, t)
      | Some content \<Rightarrow>
          (case DictReader (map (map universal_newlines) content) of
             (rs, None) \<Rightarrow> (Inr (), foldl add_row t rs)
           | (rs, Some e) \<Rightarrow> (Inl e, foldl add_row t rs))))))"

text \<open>
  \<^verbatim>\<open>__init__\<close>: a row list that is given is copied and nothing is read; otherwise the
  table starts empty and loads its file, and an error of the load leaves no table.
  The parameter \<^verbatim>\<open>load\<close> is never read.
\<close>

definition CSVDataTable ::
  "string \<Rightarrow> connection \<Rightarrow> pyval list \<Rightarrow> bool \<Rightarrow> pydict list option \<Rightarrow> filesystem
     \<Rightarrow> error + table"
where
  "CSVDataTable name ci kc dbg given_rows fs =
     (let t = \<lparr>table_name = name, connect_info = ci, key_columns = kc, debug = dbg,
                rows = [], columns = None\<rparr>
      in case given_rows of
           Some rs \<Rightarrow> Inr (t\<lparr>rows := rs\<rparr>)
         | None \<Rightarrow> (case load t fs of (Inl e, t') \<Rightarrow> Inl e | (Inr u, t') \<Rightarrow> Inr t'))"

text \<open>
  \<^verbatim>\<open>save()\<close> followed by the construction of a fresh table with the same
  configuration and no row list, which loads from the file system \<^verbatim>\<open>save\<close> left.
\<close>

definition save_then_load ::
  "(string list \<Rightarrow> string) \<Rightarrow> table \<Rightarrow> filesystem \<Rightarrow> error + table"
where
  "save_then_load str_list t fs =
     (case save str_list t fs of
        (Inl e, t', fs') \<Rightarrow> Inl e
      | (Inr u, t', fs') \<Rightarrow>
          CSVDataTable (table_name t) (connect_info t) (key_columns t) (debug t) None fs')"

text \<open>
  A value that the file gives back as it was written, whatever the interpreter: a
  string, which the writer stores as it is; without a carriage return, which reading
  would translate; without a NUL character, at which the reader of an interpreter
  before Python 3.11 raises \<^verbatim>\<open>_csv.Error\<close>; and of at most \<open>field_size_limit\<close>
  characters.
\<close>

definition plain_text :: "pyval \<Rightarrow> bool" where
  "plain_text v =
     (case v of
        PStr s \<Rightarrow> CHR 0x0D \<notin> set s \<and> CHR 0x00 \<notin> set s \<and> length s \<le> field_size_limit
      | _ \<Rightarrow> False)"

text \<open>
  A file system for the concrete instances below: \<^verbatim>\<open>data/people.csv\<close>, also under the
  spelling \<^verbatim>\<open>data//people.csv\<close>, is the file \<open>0\<close> with the given content (\<open>None\<close>: the
  file does not exist yet), and no other path can be opened: its directory does not
  exist.
\<close>

definition example_fs :: "csv_file option \<Rightarrow> filesystem" where
  "example_fs c =
     \<lparr>opens = (\<lambda>m p. if p = ''data/people.csv'' \<or> p = ''data//people.csv'' then Inr 0
                       else Inl FileNotFoundError),
      contents = (\<lambda>i. if i = 0 then c else None)\<rparr>"

section \<open>An example table\<close>

text \<open>
  A table in the shape of the specification's scenario, for the concrete instances
  below: the key column is \<^verbatim>\<open>id\<close>, the backing file is \<^verbatim>\<open>people.csv\<close> in the directory
  \<^verbatim>\<open>data\<close>, and the rows are given.
\<close>

definition example_table :: "pydict list \<Rightarrow> table" where
  "example_table rs =
     \<lparr>table_name = ''people'',
      connect_info = \<lparr>directory = Some ''data'', file_name = Some ''people.csv''\<rparr>,
      key_columns = [PStr ''id''], debug = True, rows = rs, columns = None\<rparr>"

section \<open>Facts about dictionaries\<close>

lemma map_of_dict_setitem: "map_of (dict_setitem d k v) = (map_of d)(k \<mapsto> v)"
  by (induction d) (auto simp: fun_eq_iff)

lemma dict_keys_setitem:
  "dict_keys (dict_setitem d k v) =
     (if k \<in> set (dict_keys d) then dict_keys d else dict_keys d @ [k])"
  by (induction d) (force simp: dict_keys_def)+

lemma keys_dict_setitem: "set (dict_keys (dict_setitem d k v)) = insert k (set (dict_keys d))"
  by (auto simp: dict_keys_setitem)

lemma distinct_dict_setitem:
  "distinct (dict_keys d) \<Longrightarrow> distinct (dict_keys (dict_setitem d k v))"
  by (simp add: dict_keys_setitem)

lemma dict_getitem_Inr_iff: "(\<exists>v. dict_getitem d k = Inr v) \<longleftrightarrow> k \<in> set (dict_keys d)"
  by (auto simp: dict_getitem_def dict_keys_def map_of_eq_None_iff split: option.splits)
     (metis domI domIff map_of_eq_None_iff)

lemma dict_getitem_missing: "k \<notin> set (dict_keys d) \<Longrightarrow> dict_getitem d k = Inl (KeyError k)"
  by (simp add: dict_getitem_def dict_keys_def map_of_eq_None_iff[THEN iffD2])

section \<open>Projection\<close>

lemma project_fields_ok:
  "set fs \<subseteq> set (dict_keys row) \<Longrightarrow>
   \<exists>res. project_fields row acc fs = Inr res
       \<and> map_of res = (\<lambda>k. if k \<in> set fs then map_of row k else map_of acc k)
       \<and> set (dict_keys res) = set (dict_keys acc) \<union> set fs
       \<and> (distinct (dict_keys acc) \<longrightarrow> distinct (dict_keys res))"
proof (induction fs arbitrary: acc)
  case Nil
  show ?case by simp
next
  case (Cons f fs)
  from Cons.prems have "f \<in> set (dict_keys row)" by simp
  then obtain v where v: "dict_getitem row f = Inr v"
    using dict_getitem_Inr_iff by blast
  then have mv: "map_of row f = Some v"
    by (auto simp: dict_getitem_def split: option.splits)
  from Cons.prems have "set fs \<subseteq> set (dict_keys row)" by simp
  from Cons.IH[OF this, of "dict_setitem acc f v"]
  obtain res where r: "project_fields row (dict_setitem acc f v) fs = Inr res"
    and m: "map_of res = (\<lambda>k. if k \<in> set fs then map_of row k else map_of (dict_setitem acc f v) k)"
    and k: "set (dict_keys res) = set (dict_keys (dict_setitem acc f v)) \<union> set fs"
    and d: "distinct (dict_keys (dict_setitem acc f v)) \<longrightarrow> distinct (dict_keys res)"
    by blast
  have "project_fields row acc (f # fs) = Inr res" using v r by simp
  moreover have "map_of res = (\<lambda>k. if k \<in> set (f # fs) then map_of row k else map_of acc k)"
    using m mv by (auto simp: map_of_dict_setitem fun_eq_iff)
  moreover have "set (dict_keys res) = set (dict_keys acc) \<union> set (f # fs)"
    using k by (auto simp: keys_dict_setitem)
  moreover have "distinct (dict_keys acc) \<longrightarrow> distinct (dict_keys res)"
    using d distinct_dict_setitem by blast
  ultimately show ?case by blast
qed

lemma project_fields_err:
  "\<not> set fs \<subseteq> set (dict_keys row) \<Longrightarrow>
   \<exists>k. k \<in> set fs \<and> k \<notin> set (dict_keys row) \<and> project_fields row acc fs = Inl (KeyError k)"
proof (induction fs arbitrary: acc)
  case Nil
  then show ?case by simp
next
  case (Cons f fs)
  show ?case
  proof (cases "f \<in> set (dict_keys row)")
    case False
    then show ?thesis by (auto simp: dict_getitem_missing)
  next
    case True
    then obtain v where v: "dict_getitem row f = Inr v"
      using dict_getitem_Inr_iff by blast
    from True Cons.prems have "\<not> set fs \<subseteq> set (dict_keys row)" by simp
    from Cons.IH[OF this, of "dict_setitem acc f v"] v show ?thesis by auto
  qed
qed

lemma project_fields_cong:
  "\<forall>f\<in>set fs. dict_getitem a f = dict_getitem b f \<Longrightarrow>
   project_fields a acc fs = project_fields b acc fs"
  by (induction fs arbitrary: acc) (auto split: sum.splits)

text \<open>
  Claim C8. For a field list that is given, \<^verbatim>\<open>_project\<close> fails with \<^verbatim>\<open>KeyError\<close>, on a
  column of the list that the record lacks, whenever the list holds such a column;
  when every column of the list is in the record it returns a new record whose
  columns are exactly the requested ones, each with the record's value; with no
  field list it returns the record it was given.
\<close>

theorem project_spec:
  "(f \<in> set fl \<and> f \<notin> set (dict_keys row) \<longrightarrow>
      (\<exists>k. k \<in> set fl \<and> k \<notin> set (dict_keys row) \<and> project row (Some fl) = Inl (KeyError k)))
   \<and> (set fl \<subseteq> set (dict_keys row) \<longrightarrow>
      (\<exists>res. project row (Some fl) = Inr res \<and> set (dict_keys res) = set fl
         \<and> distinct (dict_keys res)
         \<and> (\<forall>c\<in>set fl. dict_getitem res c = dict_getitem row c)))
   \<and> project row None = Inr row"
proof (intro conjI impI)
  assume "f \<in> set fl \<and> f \<notin> set (dict_keys row)"
  then have "\<not> set fl \<subseteq> set (dict_keys row)" by blast
  from project_fields_err[OF this, of "[]"]
  show "\<exists>k. k \<in> set fl \<and> k \<notin> set (dict_keys row) \<and> project row (Some fl) = Inl (KeyError k)"
    by (simp add: project_def)
next
  assume "set fl \<subseteq> set (dict_keys row)"
  from project_fields_ok[OF this, of "[]"]
  obtain res where r: "project_fields row [] fl = Inr res"
    and m: "map_of res = (\<lambda>k. if k \<in> set fl then map_of row k else map_of [] k)"
    and k: "set (dict_keys res) = set (dict_keys []) \<union> set fl"
    and d: "distinct (dict_keys []) \<longrightarrow> distinct (dict_keys res)"
    by blast
  have "\<forall>c\<in>set fl. dict_getitem res c = dict_getitem row c"
    using m by (simp add: dict_getitem_def)
  with r k d show "\<exists>res. project row (Some fl) = Inr res \<and> set (dict_keys res) = set fl
         \<and> distinct (dict_keys res)
         \<and> (\<forall>c\<in>set fl. dict_getitem res c = dict_getitem row c)"
    by (simp add: project_def dict_keys_def)
next
  show "project row None = Inr row" by (simp add: project_def)
qed

theorem project_spec_witness:
  "project [(PStr ''id'', PInt 1), (PStr ''name'', PStr ''a'')] (Some [PStr ''age''])
     = Inl (KeyError (PStr ''age''))
   \<and> project [(PStr ''id'', PInt 1), (PStr ''name'', PStr ''a'')] (Some [PStr ''name''])
     = Inr [(PStr ''name'', PStr ''a'')]
   \<and> project [(PStr ''id'', PInt 1), (PStr ''name'', PStr ''a'')] None
     = Inr [(PStr ''id'', PInt 1), (PStr ''name'', PStr ''a'')]"
  using project_spec [of "PStr ''age''" "[PStr ''age'']" "[(PStr ''id'', PInt 1), (PStr ''name'', PStr ''a'')]"]
    project_spec [of "PStr ''age''" "[PStr ''name'']" "[(PStr ''id'', PInt 1), (PStr ''name'', PStr ''a'')]"]
  by (simp add: project_def dict_getitem_def dict_keys_def)

text \<open>
  Claim C9. Projection is idempotent: when projecting a record to a field list
  succeeds, projecting the result to the same field list returns the result itself,
  item for item.
\<close>

theorem project_idempotent:
  "project r fl = Inr p \<Longrightarrow> project p fl = Inr p"
proof (cases fl)
  case None
  assume "project r fl = Inr p"
  with None show ?thesis by (simp add: project_def)
next
  case (Some fs)
  assume a: "project r fl = Inr p"
  then have p: "project_fields r [] fs = Inr p" using Some by (simp add: project_def)
  have sub: "set fs \<subseteq> set (dict_keys r)"
  proof (rule ccontr)
    assume "\<not> set fs \<subseteq> set (dict_keys r)"
    from project_fields_err[OF this, of "[]"] p show False by auto
  qed
  from project_fields_ok[OF sub, of "[]"] p
  have m: "map_of p = (\<lambda>k. if k \<in> set fs then map_of r k else map_of [] k)" by auto
  have "\<forall>f\<in>set fs. dict_getitem p f = dict_getitem r f"
    using m by (simp add: dict_getitem_def)
  from project_fields_cong[OF this, of "[]"] p Some show ?thesis by (simp add: project_def)
qed

theorem project_idempotent_witness:
  "project [(PStr ''id'', PInt 1), (PStr ''name'', PStr ''a'')] (Some [PStr ''name'', PStr ''id'', PStr ''name''])
     = Inr [(PStr ''name'', PStr ''a''), (PStr ''id'', PInt 1)]
   \<and> project [(PStr ''name'', PStr ''a''), (PStr ''id'', PInt 1)] (Some [PStr ''name'', PStr ''id'', PStr ''name''])
     = Inr [(PStr ''name'', PStr ''a''), (PStr ''id'', PInt 1)]"
proof -
  have h: "project [(PStr ''id'', PInt 1), (PStr ''name'', PStr ''a'')] (Some [PStr ''name'', PStr ''id'', PStr ''name''])
     = Inr [(PStr ''name'', PStr ''a''), (PStr ''id'', PInt 1)]"
    by (simp add: project_def dict_getitem_def)
  from h project_idempotent [OF h] show ?thesis by simp
qed

section \<open>Template matching and queries\<close>

lemma matches_items_iff:
  "matches_items row tm \<longleftrightarrow> (\<forall>(k, v)\<in>set tm. dict_get row k PNone = v)"
proof (induction tm)
  case Nil
  show ?case by simp
next
  case (Cons p tm)
  obtain k v where p: "p = (k, v)" by (cases p)
  show ?case using Cons.IH by (cases "v = dict_get row k PNone") (auto simp: p)
qed

lemma project_error: "project r fl = Inl e \<Longrightarrow> \<exists>k. e = KeyError k"
proof (cases fl)
  case None
  assume "project r fl = Inl e"
  with None show ?thesis by (simp add: project_def)
next
  case (Some fs)
  assume a: "project r fl = Inl e"
  show ?thesis
  proof (cases "set fs \<subseteq> set (dict_keys r)")
    case True
    from project_fields_ok[OF True, of "[]"] a Some show ?thesis by (auto simp: project_def)
  next
    case False
    from project_fields_err[OF False, of "[]"] a Some show ?thesis by (auto simp: project_def)
  qed
qed

lemma find_rows_ok:
  "\<forall>r\<in>set rs. matches_template r tm \<longrightarrow> (\<exists>p. project r fl = Inr p) \<Longrightarrow>
   \<exists>ps. find_rows tm fl acc rs = Inr (acc @ ps)
      \<and> list_all2 (\<lambda>p r. project r fl = Inr p) ps (filter (\<lambda>r. matches_template r tm) rs)"
proof (induction rs arbitrary: acc)
  case Nil
  show ?case by simp
next
  case (Cons r rs)
  from Cons.prems have rest: "\<forall>r\<in>set rs. matches_template r tm \<longrightarrow> (\<exists>p. project r fl = Inr p)"
    by simp
  show ?case
  proof (cases "matches_template r tm")
    case False
    with Cons.IH[OF rest, of acc] show ?thesis by simp
  next
    case True
    with Cons.prems obtain p where p: "project r fl = Inr p" by auto
    from Cons.IH[OF rest, of "acc @ [p]"] obtain ps where
      "find_rows tm fl (acc @ [p]) rs = Inr ((acc @ [p]) @ ps)"
      "list_all2 (\<lambda>p r. project r fl = Inr p) ps (filter (\<lambda>r. matches_template r tm) rs)"
      by blast
    with True p have "find_rows tm fl acc (r # rs) = Inr (acc @ (p # ps))
      \<and> list_all2 (\<lambda>p r. project r fl = Inr p) (p # ps) (filter (\<lambda>r. matches_template r tm) (r # rs))"
      by simp
    then show ?thesis by blast
  qed
qed

lemma find_rows_err:
  "\<exists>r\<in>set rs. matches_template r tm \<and> (\<forall>p. project r fl \<noteq> Inr p) \<Longrightarrow>
   \<exists>k. find_rows tm fl acc rs = Inl (KeyError k)"
proof (induction rs arbitrary: acc)
  case Nil
  then show ?case by simp
next
  case (Cons r rs)
  show ?case
  proof (cases "matches_template r tm")
    case False
    with Cons.prems have "\<exists>r\<in>set rs. matches_template r tm \<and> (\<forall>p. project r fl \<noteq> Inr p)" by auto
    from Cons.IH[OF this, of acc] False show ?thesis by simp
  next
    case True
    show ?thesis
    proof (cases "project r fl")
      case (Inl e)
      with project_error obtain k where "e = KeyError k" by blast
      with Inl True show ?thesis by simp
    next
      case (Inr p)
      with Cons.prems have "\<exists>r\<in>set rs. matches_template r tm \<and> (\<forall>p. project r fl \<noteq> Inr p)" by auto
      from Cons.IH[OF this, of "acc @ [p]"] Inr True show ?thesis by simp
    qed
  qed
qed

lemma find_rows_all_fields:
  "find_rows tm None acc rs = Inr (acc @ filter (\<lambda>r. matches_template r tm) rs)"
  by (induction rs arbitrary: acc) (auto simp: project_def)

text \<open>
  Claim C3, as amended. When every row that matches the template has every column of
  the field list, \<^verbatim>\<open>find_by_template\<close> returns the projections of exactly the rows that
  match, in reverse of load order: the result lists, row for row, the projections of
  the matching rows of the reversed row list. When some matching row lacks a requested
  column, the call fails with the \<^verbatim>\<open>KeyError\<close> of the projection (claim C8). With no
  field list the result is the matching rows themselves, most recently loaded first.
\<close>

theorem find_by_template_spec:
  "((\<forall>r\<in>set (rows t). matches_template r template \<longrightarrow> (\<exists>p. project r field_list = Inr p)) \<longrightarrow>
      (\<exists>ps. find_by_template t template field_list = Inr ps
         \<and> list_all2 (\<lambda>p r. project r field_list = Inr p) ps
              (filter (\<lambda>r. matches_template r template) (rev (rows t)))))
   \<and> ((\<exists>r\<in>set (rows t). matches_template r template \<and> (\<forall>p. project r field_list \<noteq> Inr p)) \<longrightarrow>
      (\<exists>k. find_by_template t template field_list = Inl (KeyError k)))
   \<and> find_by_template t template None
        = Inr (filter (\<lambda>r. matches_template r template) (rev (rows t)))"
proof (intro conjI impI)
  assume "\<forall>r\<in>set (rows t). matches_template r template \<longrightarrow> (\<exists>p. project r field_list = Inr p)"
  then have "\<forall>r\<in>set (rev (rows t)). matches_template r template \<longrightarrow> (\<exists>p. project r field_list = Inr p)"
    by simp
  from find_rows_ok[OF this, of "[]"]
  show "\<exists>ps. find_by_template t template field_list = Inr ps
         \<and> list_all2 (\<lambda>p r. project r field_list = Inr p) ps
              (filter (\<lambda>r. matches_template r template) (rev (rows t)))"
    by (simp add: find_by_template_def)
next
  assume "\<exists>r\<in>set (rows t). matches_template r template \<and> (\<forall>p. project r field_list \<noteq> Inr p)"
  then have "\<exists>r\<in>set (rev (rows t)). matches_template r template \<and> (\<forall>p. project r field_list \<noteq> Inr p)"
    by simp
  from find_rows_err[OF this, of "[]"]
  show "\<exists>k. find_by_template t template field_list = Inl (KeyError k)"
    by (simp add: find_by_template_def)
next
  show "find_by_template t template None
        = Inr (filter (\<lambda>r. matches_template r template) (rev (rows t)))"
    by (simp add: find_by_template_def find_rows_all_fields)
qed

theorem find_by_template_spec_witness:
  "find_by_template
     (example_table [[(PStr ''id'', PStr ''1''), (PStr ''name'', PStr ''a'')],
                     [(PStr ''id'', PStr ''2''), (PStr ''name'', PStr ''b'')],
                     [(PStr ''id'', PStr ''3''), (PStr ''name'', PStr ''a'')]])
     (Some [(PStr ''name'', PStr ''a'')]) (Some [PStr ''id''])
   = Inr [[(PStr ''id'', PStr ''3'')], [(PStr ''id'', PStr ''1'')]]
   \<and> find_by_template
     (example_table [[(PStr ''id'', PStr ''1''), (PStr ''name'', PStr ''a'')],
                     [(PStr ''id'', PStr ''2'')]])
     None (Some [PStr ''name''])
   = Inl (KeyError (PStr ''name''))"
  using find_by_template_spec
    [of "example_table [[(PStr ''id'', PStr ''1''), (PStr ''name'', PStr ''a'')],
                         [(PStr ''id'', PStr ''2''), (PStr ''name'', PStr ''b'')],
                         [(PStr ''id'', PStr ''3''), (PStr ''name'', PStr ''a'')]]"
        "Some [(PStr ''name'', PStr ''a'')]" "Some [PStr ''id'']"]
    find_by_template_spec
    [of "example_table [[(PStr ''id'', PStr ''1''), (PStr ''name'', PStr ''a'')],
                         [(PStr ''id'', PStr ''2'')]]"
        None "Some [PStr ''name'']"]
  by (simp add: example_table_def find_by_template_def matches_template_def project_def
      dict_getitem_def dict_get_def)

text \<open>
  Claim C3 as stated fails, for it promises a result for every table and template: the
  records of a table need not have the same columns, and here the record that matches
  \<^verbatim>\<open>{id: "2"}\<close> has no column \<^verbatim>\<open>name\<close>, so that the call with the field list
  \<^verbatim>\<open>["id", "name"]\<close> raises \<^verbatim>\<open>KeyError\<close>.
\<close>

theorem find_by_template_counterexample:
  "find_by_template
     (example_table [[(PStr ''id'', PStr ''1''), (PStr ''name'', PStr ''a'')],
                     [(PStr ''id'', PStr ''2'')]])
     (Some [(PStr ''id'', PStr ''2'')]) (Some [PStr ''id'', PStr ''name''])
   = Inl (KeyError (PStr ''name''))
   \<and> matches_template [(PStr ''id'', PStr ''2'')] (Some [(PStr ''id'', PStr ''2'')])"
  by (simp add: example_table_def find_by_template_def matches_template_def project_def
      dict_getitem_def dict_get_def)

text \<open>
  Claim C10. A template item with the value \<^verbatim>\<open>None\<close> matches a record that does not
  have the column: \<^verbatim>\<open>row.get(c, None)\<close> is \<^verbatim>\<open>None\<close> for it. So \<^verbatim>\<open>find_by_template\<close> with
  the template \<^verbatim>\<open>{c: None}\<close> returns every row of the table that lacks the column \<open>c\<close>.
\<close>

theorem null_template_matches_absent_column:
  "c \<notin> set (dict_keys r) \<Longrightarrow>
   matches_template r (Some [(c, PNone)])
   \<and> (r \<in> set (rows t) \<longrightarrow>
        (\<exists>res. find_by_template t (Some [(c, PNone)]) None = Inr res \<and> r \<in> set res))"
proof -
  assume "c \<notin> set (dict_keys r)"
  then have "map_of r c = None" by (simp add: dict_keys_def map_of_eq_None_iff)
  then have m: "matches_template r (Some [(c, PNone)])"
    by (simp add: matches_template_def dict_get_def)
  then show ?thesis
    by (simp add: find_by_template_def find_rows_all_fields)
qed

theorem null_template_matches_absent_column_witness:
  "PStr ''status'' \<notin> set (dict_keys [(PStr ''id'', PStr ''1'')])
   \<and> matches_template [(PStr ''id'', PStr ''1'')] (Some [(PStr ''status'', PNone)])
   \<and> find_by_template
        (example_table [[(PStr ''id'', PStr ''1'')],
                        [(PStr ''id'', PStr ''2''), (PStr ''status'', PStr ''ok'')]])
        (Some [(PStr ''status'', PNone)]) None
      = Inr [[(PStr ''id'', PStr ''1'')]]"
proof -
  have h: "PStr ''status'' \<notin> set (dict_keys [(PStr ''id'', PStr ''1'')])"
    by (simp add: dict_keys_def)
  from h null_template_matches_absent_column [OF h,
      of "example_table [[(PStr ''id'', PStr ''1'')],
                         [(PStr ''id'', PStr ''2''), (PStr ''status'', PStr ''ok'')]]"]
  show ?thesis
    by (simp add: example_table_def find_by_template_def matches_template_def project_def
        dict_get_def)
qed

text \<open>
  Claim C4, as amended. A record matches a template iff, for every (column, value)
  pair of the template, the record's value in that column, read as \<^verbatim>\<open>None\<close> when the
  record does not have the column, equals the value. \<^verbatim>\<open>find_by_template(None)\<close> and
  \<^verbatim>\<open>find_by_template({})\<close> return all rows, most recently loaded first. A template that
  binds a column to a value which no row gives for that column (again \<^verbatim>\<open>None\<close> for a
  row without the column) matches no row, whatever the field list.
\<close>

theorem matches_template_spec:
  "(matches_template r (Some tm) \<longleftrightarrow> (\<forall>(k, v)\<in>set tm. dict_get r k PNone = v))
   \<and> matches_template r None
   \<and> find_by_template t None None = Inr (rev (rows t))
   \<and> find_by_template t (Some []) None = Inr (rev (rows t))
   \<and> ((c, v) \<in> set tm \<and> (\<forall>r\<in>set (rows t). dict_get r c PNone \<noteq> v) \<longrightarrow>
        find_by_template t (Some tm) field_list = Inr [])"
proof (intro conjI impI)
  show "matches_template r (Some tm) \<longleftrightarrow> (\<forall>(k, v)\<in>set tm. dict_get r k PNone = v)"
    by (simp add: matches_template_def matches_items_iff)
  show "matches_template r None" by (simp add: matches_template_def)
  show "find_by_template t None None = Inr (rev (rows t))"
    by (simp add: find_by_template_def find_rows_all_fields matches_template_def)
  show "find_by_template t (Some []) None = Inr (rev (rows t))"
    by (simp add: find_by_template_def find_rows_all_fields matches_template_def)
next
  assume a: "(c, v) \<in> set tm \<and> (\<forall>r\<in>set (rows t). dict_get r c PNone \<noteq> v)"
  then have none: "\<forall>r\<in>set (rev (rows t)). \<not> matches_template r (Some tm)"
    by (fastforce simp: matches_template_def matches_items_iff)
  then have "\<forall>r\<in>set (rev (rows t)). matches_template r (Some tm) \<longrightarrow> (\<exists>p. project r field_list = Inr p)"
    by blast
  from find_rows_ok[OF this, of "[]"] none
  show "find_by_template t (Some tm) field_list = Inr []"
    by (auto simp: find_by_template_def filter_empty_conv[THEN iffD2])
qed

theorem matches_template_spec_witness:
  "matches_template [(PStr ''id'', PStr ''1''), (PStr ''name'', PStr ''a'')]
     (Some [(PStr ''name'', PStr ''a'')])
   \<and> dict_get [(PStr ''id'', PStr ''1''), (PStr ''name'', PStr ''a'')] (PStr ''name'') PNone
       = PStr ''a''
   \<and> find_by_template
        (example_table [[(PStr ''id'', PStr ''1''), (PStr ''name'', PStr ''a'')]])
        (Some [(PStr ''name'', PStr ''z'')]) (Some [PStr ''age''])
      = Inr []"
  using matches_template_spec
    [of "[(PStr ''id'', PStr ''1''), (PStr ''name'', PStr ''a'')]" "[(PStr ''name'', PStr ''a'')]"
        "example_table [[(PStr ''id'', PStr ''1''), (PStr ''name'', PStr ''a'')]]"
        "PStr ''name''" "PStr ''a''" "Some [PStr ''age'']"]
    matches_template_spec
    [of "[(PStr ''id'', PStr ''1''), (PStr ''name'', PStr ''a'')]" "[(PStr ''name'', PStr ''z'')]"
        "example_table [[(PStr ''id'', PStr ''1''), (PStr ''name'', PStr ''a'')]]"
        "PStr ''name''" "PStr ''z''" "Some [PStr ''age'']"]
  by (simp add: example_table_def dict_get_def)

text \<open>
  Claim C4 as stated fails: the record \<^verbatim>\<open>{id: "1"}\<close> matches the template
  \<^verbatim>\<open>{status: None}\<close> although it does not have the column \<^verbatim>\<open>status\<close>, and the template,
  whose value no record has in that column, finds the record.
\<close>

theorem matches_template_counterexample:
  "matches_template [(PStr ''id'', PStr ''1'')] (Some [(PStr ''status'', PNone)])
   \<and> PStr ''status'' \<notin> set (dict_keys [(PStr ''id'', PStr ''1'')])
   \<and> find_by_template
        (example_table [[(PStr ''id'', PStr ''1'')]])
        (Some [(PStr ''status'', PNone)]) None
      = Inr [[(PStr ''id'', PStr ''1'')]]"
  by (simp add: example_table_def find_by_template_def matches_template_def project_def
      dict_get_def dict_keys_def)

section \<open>Saving and loading\<close>

lemma dict_setitem_new: "k \<notin> set (dict_keys d) \<Longrightarrow> dict_setitem d k v = d @ [(k, v)]"
  by (induction d) (auto simp: dict_keys_def)

lemma foldl_setitem_distinct:
  "distinct (dict_keys (acc @ ps)) \<Longrightarrow>
   foldl (\<lambda>d (k, v). dict_setitem d k v) acc ps = acc @ ps"
proof (induction ps arbitrary: acc)
  case Nil
  show ?case by simp
next
  case (Cons p ps)
  obtain k v where p: "p = (k, v)" by (cases p)
  from Cons.prems p have new: "k \<notin> set (dict_keys acc)" by (auto simp: dict_keys_def)
  from Cons.prems have "distinct (dict_keys ((acc @ [p]) @ ps))" by simp
  from Cons.IH[OF this] new p show ?case by (simp add: dict_setitem_new)
qed

lemma dict_of_pairs_distinct: "distinct (map fst ps) \<Longrightarrow> dict_of_pairs ps = ps"
  using foldl_setitem_distinct[of "[]" ps] by (simp add: dict_of_pairs_def dict_keys_def)

lemma universal_newlines_id: "CHR 0x0D \<notin> set s \<Longrightarrow> universal_newlines s = s"
  by (induction s rule: universal_newlines.induct) auto

lemma rows_foldl_add_row: "rows (foldl add_row t rs) = rows t @ rs"
  by (induction rs arbitrary: t) (auto simp: add_row_def)

lemma write_rows_ok:
  "\<forall>r\<in>set rs. set (dict_keys r) \<subseteq> set cols \<Longrightarrow>
   write_rows sl cols content rs =
     (Inr (), content @ map (\<lambda>r. map (\<lambda>k. csv_str sl (dict_get r k (PStr []))) cols) rs)"
proof (induction rs arbitrary: content)
  case Nil
  show ?case by simp
next
  case (Cons r rs)
  from Cons.prems have "filter (\<lambda>k. k \<notin> set cols) (dict_keys r) = []"
    by (auto simp: filter_empty_conv)
  then have "writerow sl cols content r
      = (Inr (), content @ [map (\<lambda>k. csv_str sl (dict_get r k (PStr []))) cols])"
    by (simp add: writerow_def dict_to_list_def comp_def)
  moreover from Cons.prems have "\<forall>r\<in>set rs. set (dict_keys r) \<subseteq> set cols" by simp
  ultimately show ?case using Cons.IH by simp
qed

lemma map_of_zip_same: "k \<in> set xs \<Longrightarrow> map_of (zip xs xs) k = Some k"
  by (induction xs) auto

lemma writeheader_ok:
  "distinct cols \<Longrightarrow> writeheader sl cols content = (Inr (), content @ [map (csv_str sl) cols])"
proof -
  assume d: "distinct cols"
  then have z: "dict_of_pairs (zip cols cols) = zip cols cols"
    by (simp add: dict_of_pairs_distinct)
  have "filter (\<lambda>k. k \<notin> set cols) (dict_keys (zip cols cols)) = []"
    by (simp add: dict_keys_def)
  moreover have "map (\<lambda>key. dict_get (zip cols cols) key (PStr [])) cols = cols"
    by (rule map_idI) (simp add: dict_get_def map_of_zip_same)
  ultimately show ?thesis by (simp add: writeheader_def writerow_def dict_to_list_def z)
qed

text \<open>What \<^verbatim>\<open>save\<close> leaves when every row keeps to the columns of the first one.\<close>

lemma save_ok:
  assumes "rows t = r0 # rest"
    and "directory (connect_info t) = Some d" and "file_name (connect_info t) = Some f"
    and "opens fs Writing (d @ ''/'' @ f) = Inr i"
    and "distinct (dict_keys r0)"
    and "\<forall>r\<in>set (rows t). set (dict_keys r) \<subseteq> set (dict_keys r0)"
  shows "save sl t fs =
    (Inr (), t\<lparr>columns := Some (dict_keys r0)\<rparr>,
     fs\<lparr>contents := (contents fs)(i \<mapsto> map (csv_str sl) (dict_keys r0)
        # map (\<lambda>r. map (\<lambda>k. csv_str sl (dict_get r k (PStr []))) (dict_keys r0)) (rows t))\<rparr>)"
  using assms(1-4) writeheader_ok[OF assms(5), of sl "[]"] write_rows_ok[OF assms(6), of sl]
  by (simp add: save_def Let_def)

lemma reader_rows_ok:
  "\<forall>row\<in>set data. within_limit row \<Longrightarrow>
   reader_rows fieldnames data
     = (map (reader_row fieldnames) (filter (\<lambda>row. row \<noteq> []) data), None)"
  by (induction data) auto

lemma reader_row_same_length:
  "length fieldnames = length row \<Longrightarrow> distinct fieldnames \<Longrightarrow>
   reader_row fieldnames row = zip (map PStr fieldnames) (map PStr row)"
  by (simp add: reader_row_def Let_def dict_of_pairs_distinct distinct_map inj_on_def)

lemma dict_eq_zip:
  assumes "distinct cols" and "distinct (dict_keys r)" and "set (dict_keys r) = set cols"
  shows "dict_eq (zip cols (map (\<lambda>k. dict_get r k dflt) cols)) r"
proof -
  have len: "length cols = length r"
    using assms distinct_card[of cols] distinct_card[of "dict_keys r"] by (simp add: dict_keys_def)
  have "map_of r k = Some (dict_get r k dflt)" if "k \<in> set cols" for k
  proof -
    from that assms(3) have "k \<in> fst ` set r" by (simp add: dict_keys_def)
    then obtain v where "map_of r k = Some v"
      by (metis domD dom_map_of_conv_image_fst)
    then show ?thesis by (simp add: dict_get_def)
  qed
  then have "list_all (\<lambda>(k, v). map_of r k = Some v) (zip cols (map (\<lambda>k. dict_get r k dflt) cols))"
    by (auto simp: list_all_iff set_zip)
  with len show ?thesis by (simp add: dict_eq_def)
qed

lemma plain_text_csv_str: "plain_text v \<Longrightarrow> PStr (universal_newlines (csv_str sl v)) = v"
  by (cases v) (simp_all add: plain_text_def csv_str_def universal_newlines_id)


lemma within_limit_plain:
  "\<forall>v\<in>set vs. plain_text v \<Longrightarrow> map PStr row = vs \<Longrightarrow> within_limit row"
  by (auto simp: within_limit_def list_all_iff plain_text_def)

text \<open>
  Claim C6, as amended. Let the row list be non-empty, let every record hold each of
  its columns once and have exactly the columns of the first record, of which there is
  at least one, and let every column name and every value be a string without a
  carriage return or a NUL character and of at most 131072 characters. Let the
  directory and the file name be given, let the file system open the path of \<^verbatim>\<open>save\<close>
  for writing, and let the path of \<^verbatim>\<open>_load\<close> name the same file, open for reading.
  Then \<^verbatim>\<open>save()\<close> succeeds, and a fresh table that loads from the file has, in the same
  order, records equal to the saved ones: the same columns with the same values.
\<close>

theorem save_then_load_roundtrip:
  assumes first: "rows t = r0 # rest"
    and dir: "directory (connect_info t) = Some d"
    and fil: "file_name (connect_info t) = Some f"
    and wr: "opens fs Writing (d @ ''/'' @ f) = Inr i"
    and rd: "opens fs Reading (os_path_join d f) = Inr i"
    and cols: "dict_keys r0 \<noteq> []"
    and wf: "\<forall>r\<in>set (rows t). distinct (dict_keys r) \<and> set (dict_keys r) = set (dict_keys r0)
               \<and> (\<forall>(k, v)\<in>set r. plain_text k \<and> plain_text v)"
  shows "\<exists>t'. save_then_load str_list t fs = Inr t' \<and> list_all2 dict_eq (rows t') (rows t)"
proof -
  let ?cols = "dict_keys r0"
  let ?line = "\<lambda>r. map (\<lambda>k. csv_str str_list (dict_get r k (PStr []))) ?cols"
  let ?content = "map (csv_str str_list) ?cols # map ?line (rows t)"
  let ?names = "map universal_newlines (map (csv_str str_list) ?cols)"
  let ?lines = "map (map universal_newlines) (map ?line (rows t))"
  have r0: "r0 \<in> set (rows t)" using first by simp
  with wf have dist: "distinct ?cols" by blast
  have colplain: "plain_text k" if "k \<in> set ?cols" for k
    using that wf r0 by (fastforce simp: dict_keys_def)
  have sub: "\<forall>r\<in>set (rows t). set (dict_keys r) \<subseteq> set ?cols" using wf by blast
  have saved: "save str_list t fs =
      (Inr (), t\<lparr>columns := Some ?cols\<rparr>, fs\<lparr>contents := (contents fs)(i \<mapsto> ?content)\<rparr>)"
    by (rule save_ok[OF first dir fil wr dist sub])
  have names: "map PStr ?names = ?cols"
    by (simp add: comp_def) (rule map_idI, simp add: plain_text_csv_str colplain)
  then have len_names: "length ?names = length ?cols"
    by (metis length_map)
  have dnames: "distinct ?names"
    using names dist by (metis distinct_map)
  have lim_names: "within_limit ?names"
    by (rule within_limit_plain[OF _ names]) (simp add: colplain)
  have valplain: "plain_text (dict_get r k (PStr []))" if "r \<in> set (rows t)" "k \<in> set ?cols" for r k
  proof -
    from that wf have "k \<in> fst ` set r" by (simp add: dict_keys_def)
    then obtain v where v: "map_of r k = Some v" by (metis domD dom_map_of_conv_image_fst)
    then have "(k, v) \<in> set r" by (rule map_of_SomeD)
    with wf that(1) have "plain_text v" by blast
    with v show ?thesis by (simp add: dict_get_def)
  qed
  have vals: "map PStr (map universal_newlines (?line r)) = map (\<lambda>k. dict_get r k (PStr [])) ?cols"
    if "r \<in> set (rows t)" for r
    using that by (simp add: comp_def plain_text_csv_str valplain)
  have lim_line: "within_limit (map universal_newlines (?line r))" if "r \<in> set (rows t)" for r
    by (rule within_limit_plain[OF _ vals[OF that]]) (simp add: valplain that)
  have row: "reader_row ?names (map universal_newlines (?line r))
      = zip ?cols (map (\<lambda>k. dict_get r k (PStr [])) ?cols)" if "r \<in> set (rows t)" for r
  proof -
    have "length ?names = length (map universal_newlines (?line r))" by simp
    from reader_row_same_length[OF this dnames]
    have "reader_row ?names (map universal_newlines (?line r))
        = zip (map PStr ?names) (map PStr (map universal_newlines (?line r)))" .
    then show ?thesis by (simp only: names vals[OF that])
  qed
  have nonempty: "filter (\<lambda>row. row \<noteq> []) ?lines = ?lines"
    using cols by (simp add: filter_id_conv)
  have lim_lines: "\<forall>row\<in>set ?lines. within_limit row"
    using lim_line by (simp only: map_map set_map comp_def) blast
  have read: "DictReader (map (map universal_newlines) ?content)
      = (map (\<lambda>r. zip ?cols (map (\<lambda>k. dict_get r k (PStr [])) ?cols)) (rows t), None)"
  proof -
    have "map (map universal_newlines) ?content = ?names # ?lines"
      by (simp only: list.map)
    then have "DictReader (map (map universal_newlines) ?content) = reader_rows ?names ?lines"
      using lim_names by (simp only: DictReader_def list.case if_True)
    also have "\<dots> = (map (reader_row ?names) ?lines, None)"
      using reader_rows_ok[OF lim_lines] by (simp only: nonempty)
    also have "map (reader_row ?names) ?lines
        = map (\<lambda>r. reader_row ?names (map universal_newlines (?line r))) (rows t)"
      by (simp only: map_map comp_def)
    also have "\<dots> = map (\<lambda>r. zip ?cols (map (\<lambda>k. dict_get r k (PStr [])) ?cols)) (rows t)"
      by (rule map_cong[OF refl]) (rule row)
    finally show ?thesis .
  qed
  define t' where "t' = foldl add_row
      \<lparr>table_name = table_name t, connect_info = connect_info t, key_columns = key_columns t,
        debug = debug t, rows = [], columns = None\<rparr>
      (map (\<lambda>r. zip ?cols (map (\<lambda>k. dict_get r k (PStr [])) ?cols)) (rows t))"
  have "load \<lparr>table_name = table_name t, connect_info = connect_info t,
        key_columns = key_columns t, debug = debug t, rows = [], columns = None\<rparr>
      (fs\<lparr>contents := (contents fs)(i \<mapsto> ?content)\<rparr>) = (Inr (), t')"
    using dir fil rd by (simp add: load_def read t'_def del: list.map)
  then have loaded: "save_then_load str_list t fs = Inr t'"
    using saved by (simp add: save_then_load_def CSVDataTable_def Let_def del: list.map)
  have "rows t' = map (\<lambda>r. zip ?cols (map (\<lambda>k. dict_get r k (PStr [])) ?cols)) (rows t)"
    by (simp add: t'_def rows_foldl_add_row)
  moreover have "dict_eq (zip ?cols (map (\<lambda>k. dict_get r k (PStr [])) ?cols)) r"
    if "r \<in> set (rows t)" for r
    using dict_eq_zip[OF dist, of r] wf that by blast
  ultimately have "list_all2 dict_eq (rows t') (rows t)"
    by (simp add: list_all2_map1 list_all2_same)
  with loaded show ?thesis by blast
qed

theorem save_then_load_roundtrip_witness:
  "\<exists>t'. save_then_load (\<lambda>xs. [])
          (example_table [[(PStr ''id'', PStr ''1''), (PStr ''name'', PStr ''a'')],
                          [(PStr ''name'', PStr ''b''), (PStr ''id'', PStr ''2'')]])
          (example_fs None) = Inr t'
      \<and> list_all2 dict_eq (rows t')
          (rows (example_table [[(PStr ''id'', PStr ''1''), (PStr ''name'', PStr ''a'')],
                                [(PStr ''name'', PStr ''b''), (PStr ''id'', PStr ''2'')]]))"
proof -
  let ?t = "example_table [[(PStr ''id'', PStr ''1''), (PStr ''name'', PStr ''a'')],
                           [(PStr ''name'', PStr ''b''), (PStr ''id'', PStr ''2'')]]"
  have first: "rows ?t = [(PStr ''id'', PStr ''1''), (PStr ''name'', PStr ''a'')]
      # [[(PStr ''name'', PStr ''b''), (PStr ''id'', PStr ''2'')]]"
    by (simp add: example_table_def)
  have dir: "directory (connect_info ?t) = Some ''data''" by (simp add: example_table_def)
  have fil: "file_name (connect_info ?t) = Some ''people.csv''" by (simp add: example_table_def)
  have wr: "opens (example_fs None) Writing (''data'' @ ''/'' @ ''people.csv'') = Inr 0"
    by (simp add: example_fs_def)
  have rd: "opens (example_fs None) Reading (os_path_join ''data'' ''people.csv'') = Inr 0"
    by (simp add: example_fs_def os_path_join_def)
  have cols: "dict_keys [(PStr ''id'', PStr ''1''), (PStr ''name'', PStr ''a'')] \<noteq> []"
    by (simp add: dict_keys_def)
  have wf: "\<forall>r\<in>set (rows ?t). distinct (dict_keys r)
      \<and> set (dict_keys r) = set (dict_keys [(PStr ''id'', PStr ''1''), (PStr ''name'', PStr ''a'')])
      \<and> (\<forall>(k, v)\<in>set r. plain_text k \<and> plain_text v)"
    by (auto simp: example_table_def dict_keys_def plain_text_def field_size_limit_def)
  from save_then_load_roundtrip [OF first dir fil wr rd cols wf] show ?thesis .
qed

text \<open>
  Claim C6 as stated fails: the file holds text. The record \<^verbatim>\<open>{id: 1, name: "a"}\<close> of
  the specification's scenario is written with the field \<^verbatim>\<open>1\<close> and loaded as
  \<^verbatim>\<open>{id: "1", name: "a"}\<close>, and the string \<^verbatim>\<open>"1"\<close> is not the number \<^verbatim>\<open>1\<close>.
\<close>

theorem save_then_load_counterexample:
  "map_sum id rows
     (save_then_load (\<lambda>xs. [])
        (example_table [[(PStr ''id'', PInt 1), (PStr ''name'', PStr ''a'')]]) (example_fs None))
     = Inr [[(PStr ''id'', PStr ''1''), (PStr ''name'', PStr ''a'')]]
   \<and> \<not> dict_eq [(PStr ''id'', PStr ''1''), (PStr ''name'', PStr ''a'')]
              [(PStr ''id'', PInt 1), (PStr ''name'', PStr ''a'')]"
  by (simp add: Let_def save_then_load_def save_def example_table_def example_fs_def dict_keys_def
      writeheader_def writerow_def dict_to_list_def dict_of_pairs_def dict_get_def csv_str_def
      str_int_def str_nat.simps CSVDataTable_def load_def os_path_join_def DictReader_def
      within_limit_def field_size_limit_def reader_row_def add_row_def dict_eq_def)

text \<open>
  Why the amended claim C6 asks what it asks. A record with a column the first record
  does not have stops \<^verbatim>\<open>save\<close> with \<^verbatim>\<open>ValueError\<close>, after the header and the rows
  before it have been written. A carriage return in a value is loaded as a line feed.
  A value of 131073 characters is saved, and the reader refuses it. With an empty
  directory \<^verbatim>\<open>save\<close> writes \<^verbatim>\<open>/people.csv\<close> while \<^verbatim>\<open>_load\<close> opens \<^verbatim>\<open>people.csv\<close>, another
  file unless the working directory is the root. With the directory \<^verbatim>\<open>data/\<close> the two
  paths differ as strings, \<^verbatim>\<open>data//people.csv\<close> and \<^verbatim>\<open>data/people.csv\<close>, and name one
  file: the table is saved and loaded.
\<close>

lemma save_extra_column:
  "fst (save (\<lambda>xs. [])
          (example_table [[(PStr ''id'', PStr ''1'')],
                          [(PStr ''id'', PStr ''2''), (PStr ''name'', PStr ''b'')]])
          (example_fs None)) = Inl ValueError
   \<and> contents (snd (snd (save (\<lambda>xs. [])
          (example_table [[(PStr ''id'', PStr ''1'')],
                          [(PStr ''id'', PStr ''2''), (PStr ''name'', PStr ''b'')]])
          (example_fs None)))) 0 = Some [[''id''], [''1'']]"
  by (simp add: Let_def save_def example_table_def example_fs_def dict_keys_def writeheader_def
      writerow_def dict_to_list_def dict_of_pairs_def dict_get_def csv_str_def)

lemma save_then_load_carriage_return:
  "map_sum id rows
     (save_then_load (\<lambda>xs. [])
        (example_table [[(PStr ''id'', PStr [CHR ''a'', CHR 0x0D, CHR ''b''])]]) (example_fs None))
     = Inr [[(PStr ''id'', PStr [CHR ''a'', CHR 0x0A, CHR ''b''])]]"
  by (simp add: Let_def save_then_load_def save_def example_table_def example_fs_def dict_keys_def
      writeheader_def writerow_def dict_to_list_def dict_of_pairs_def dict_get_def csv_str_def
      CSVDataTable_def load_def os_path_join_def DictReader_def within_limit_def
      field_size_limit_def reader_row_def add_row_def)

lemma save_then_load_long_field:
  "save_then_load (\<lambda>xs. [])
     (example_table [[(PStr ''id'', PStr (replicate 131073 (CHR ''a'')))]]) (example_fs None)
   = Inl CsvError"
proof -
  have "universal_newlines (replicate 131073 (CHR ''a'')) = replicate 131073 (CHR ''a'')"
    by (rule universal_newlines_id) simp
  then show ?thesis
    by (simp add: Let_def save_then_load_def save_def example_table_def example_fs_def
        dict_keys_def writeheader_def writerow_def dict_to_list_def dict_of_pairs_def
        dict_get_def csv_str_def CSVDataTable_def load_def os_path_join_def DictReader_def
        within_limit_def field_size_limit_def)
qed

lemma save_then_load_other_file:
  "save_then_load (\<lambda>xs. [])
     ((example_table [[(PStr ''id'', PStr ''1'')]])
        \<lparr>connect_info := \<lparr>directory = Some [], file_name = Some ''people.csv''\<rparr>\<rparr>)
     \<lparr>opens = (\<lambda>m p. if p = ''/people.csv'' then Inr 0
                      else if p = ''people.csv'' then Inr 1 else Inl FileNotFoundError),
      contents = (\<lambda>i. None)\<rparr>
   = Inl FileNotFoundError"
  by (simp add: Let_def save_then_load_def save_def example_table_def dict_keys_def
      writeheader_def writerow_def dict_to_list_def dict_of_pairs_def dict_get_def csv_str_def
      CSVDataTable_def load_def os_path_join_def)

lemma save_then_load_trailing_separator:
  "map_sum id rows
     (save_then_load (\<lambda>xs. [])
        ((example_table [[(PStr ''id'', PStr ''1'')]])
           \<lparr>connect_info := \<lparr>directory = Some ''data/'', file_name = Some ''people.csv''\<rparr>\<rparr>)
        (example_fs None))
     = Inr [[(PStr ''id'', PStr ''1'')]]"
  by (simp add: Let_def save_then_load_def save_def example_table_def example_fs_def dict_keys_def
      writeheader_def writerow_def dict_to_list_def dict_of_pairs_def dict_get_def csv_str_def
      CSVDataTable_def load_def os_path_join_def DictReader_def within_limit_def
      field_size_limit_def reader_row_def add_row_def)

text \<open>
  Claim C7, as amended. On a table with no rows \<^verbatim>\<open>save()\<close> fails, and writes neither a
  header nor a record. When the directory or the file name is missing the error is
  \<^verbatim>\<open>TypeError\<close>, and when \<^verbatim>\<open>open(fn, "w")\<close> is refused it is the error of \<^verbatim>\<open>open\<close>, such
  as \<^verbatim>\<open>FileNotFoundError\<close> for a directory that does not exist; in both cases the
  table and the file system are as they were. Otherwise the error is \<^verbatim>\<open>IndexError\<close>,
  raised by \<^verbatim>\<open>self._rows[0]\<close> after \<^verbatim>\<open>open\<close> has created or emptied the backing file: the
  table is unchanged and the file is empty.
\<close>

theorem save_empty_table:
  "rows t = [] \<Longrightarrow>
   (directory (connect_info t) = None \<or> file_name (connect_info t) = None \<longrightarrow>
      save str_list t fs = (Inl TypeError, t, fs))
   \<and> (directory (connect_info t) = Some d \<and> file_name (connect_info t) = Some f
        \<and> opens fs Writing (d @ ''/'' @ f) = Inl e \<longrightarrow>
      save str_list t fs = (Inl e, t, fs))
   \<and> (directory (connect_info t) = Some d \<and> file_name (connect_info t) = Some f
        \<and> opens fs Writing (d @ ''/'' @ f) = Inr i \<longrightarrow>
      save str_list t fs = (Inl IndexError, t, fs\<lparr>contents := (contents fs)(i \<mapsto> [])\<rparr>))"
  by (auto simp: save_def split: option.splits)

theorem save_empty_table_witness:
  "save (\<lambda>xs. []) (example_table []) (example_fs (Some [[''id''], [''1'']]))
     = (Inl IndexError, example_table [],
        (example_fs (Some [[''id''], [''1'']]))
          \<lparr>contents := (contents (example_fs (Some [[''id''], [''1'']])))(0 \<mapsto> [])\<rparr>)
   \<and> save (\<lambda>xs. [])
       ((example_table [])
          \<lparr>connect_info := \<lparr>directory = Some ''nowhere'', file_name = Some ''people.csv''\<rparr>\<rparr>)
       (example_fs None)
     = (Inl FileNotFoundError,
        (example_table [])
          \<lparr>connect_info := \<lparr>directory = Some ''nowhere'', file_name = Some ''people.csv''\<rparr>\<rparr>,
        example_fs None)
   \<and> save (\<lambda>xs. [])
       ((example_table [])
          \<lparr>connect_info := \<lparr>directory = None, file_name = Some ''people.csv''\<rparr>\<rparr>)
       (example_fs None)
     = (Inl TypeError,
        (example_table [])
          \<lparr>connect_info := \<lparr>directory = None, file_name = Some ''people.csv''\<rparr>\<rparr>,
        example_fs None)"
  using save_empty_table
      [where t = "example_table []" and d = "''data''" and f = "''people.csv''"
         and fs = "example_fs (Some [[''id''], [''1'']])" and str_list = "\<lambda>xs. []" and i = 0
         and e = FileNotFoundError]
    save_empty_table
      [where t = "(example_table [])
             \<lparr>connect_info := \<lparr>directory = Some ''nowhere'', file_name = Some ''people.csv''\<rparr>\<rparr>"
         and d = "''nowhere''" and f = "''people.csv''" and fs = "example_fs None"
         and str_list = "\<lambda>xs. []" and i = 0 and e = FileNotFoundError]
    save_empty_table
      [where t = "(example_table [])
             \<lparr>connect_info := \<lparr>directory = None, file_name = Some ''people.csv''\<rparr>\<rparr>"
         and d = "''data''" and f = "''people.csv''" and fs = "example_fs None"
         and str_list = "\<lambda>xs. []" and i = 0 and e = FileNotFoundError]
  by (simp add: example_table_def example_fs_def)

text \<open>
  Claim C7 as stated fails: the error is \<^verbatim>\<open>IndexError\<close>, not \<^verbatim>\<open>EmptyTableError\<close>, and a
  backing file that held a header and a record before the call is empty after it.
\<close>

theorem save_empty_table_counterexample:
  "fst (save (\<lambda>xs. []) (example_table []) (example_fs (Some [[''id''], [''1'']])))
     = Inl IndexError
   \<and> contents (example_fs (Some [[''id''], [''1'']])) 0 = Some [[''id''], [''1'']]
   \<and> contents (snd (snd (save (\<lambda>xs. []) (example_table [])
                              (example_fs (Some [[''id''], [''1'']]))))) 0
     = Some []"
  by (simp add: save_def example_table_def example_fs_def)

section \<open>The unfinished operations\<close>

text \<open>
  Claim C2 on the code. \<^verbatim>\<open>find_by_primary_key\<close> ends with a bare \<^verbatim>\<open>return\<close>: on the
  scenario's table, \<^verbatim>\<open>find_by_primary_key([2])\<close> answers \<^verbatim>\<open>None\<close> and not the record
  \<^verbatim>\<open>{id: 2, name: "b"}\<close> that has the key.
\<close>

theorem find_by_primary_key_present_key:
  "find_by_primary_key
     (example_table [[(PStr ''id'', PInt 1), (PStr ''name'', PStr ''a'')],
                     [(PStr ''id'', PInt 2), (PStr ''name'', PStr ''b'')]])
     [PInt 2] None = Inr None"
  by (simp add: find_by_primary_key_def)

text \<open>
  Nor is the number of key values checked: with one key column and two key values
  the call returns as well.
\<close>

lemma find_by_primary_key_no_arity_check:
  "find_by_primary_key
     (example_table [[(PStr ''id'', PStr ''1''), (PStr ''name'', PStr ''a'')]])
     [PStr ''1'', PStr ''a''] None = Inr None"
  by (simp add: find_by_primary_key_def)

text \<open>
  Claim C1 on the code. \<^verbatim>\<open>insert\<close> of a record whose key \<^verbatim>\<open>id = 1\<close> is already in the table
  returns normally: no error is raised. The rows are as they were.
\<close>

theorem insert_record_duplicate_key:
  "insert_record
     (example_table [[(PStr ''id'', PInt 1), (PStr ''name'', PStr ''a'')],
                     [(PStr ''id'', PInt 2), (PStr ''name'', PStr ''b'')]])
     [(PStr ''id'', PInt 1), (PStr ''name'', PStr ''x'')]
   = (Inr (), example_table [[(PStr ''id'', PInt 1), (PStr ''name'', PStr ''a'')],
                             [(PStr ''id'', PInt 2), (PStr ''name'', PStr ''b'')]])"
  by (simp add: insert_record_def)

text \<open>
  Claim C5 on the code. \<^verbatim>\<open>delete_by_template({id: 1})\<close> on a table with one matching
  record returns \<^verbatim>\<open>0\<close> and leaves the table as it was: \<^verbatim>\<open>find_by_template\<close> with the same
  template still finds the record.
\<close>

theorem delete_by_template_keeps_rows:
  "delete_by_template
     (example_table [[(PStr ''id'', PInt 1), (PStr ''name'', PStr ''a'')],
                     [(PStr ''id'', PInt 2), (PStr ''name'', PStr ''b'')]])
     (Some [(PStr ''id'', PInt 1)])
   = (Inr 0, example_table [[(PStr ''id'', PInt 1), (PStr ''name'', PStr ''a'')],
                            [(PStr ''id'', PInt 2), (PStr ''name'', PStr ''b'')]])
   \<and> find_by_template
     (example_table [[(PStr ''id'', PInt 1), (PStr ''name'', PStr ''a'')],
                     [(PStr ''id'', PInt 2), (PStr ''name'', PStr ''b'')]])
     (Some [(PStr ''id'', PInt 1)]) None
   = Inr [[(PStr ''id'', PInt 1), (PStr ''name'', PStr ''a'')]]"
  by (simp add: delete_by_template_def find_by_template_def example_table_def
      matches_template_def dict_get_def project_def)

end
